theory Spec2Isabelle
  imports Complex_Main "HOL-Library.Sublist"
begin

section \<open>JavaScript values\<close>

text \<open>
  The tool map, the prompts namespace and the prompt lists are inspected by the dispatcher
  with dynamic tests (\<^verbatim>\<open>typeof\<close>, truthiness, optional chaining), so they are modelled as
  dynamically typed values. A string is the list of its code units, so that \<open>length\<close> is
  the \<^verbatim>\<open>.length\<close> of the source. A number is the exact value of a finite double.
  \<open>JFun\<close> is a callable object; like \<open>JObj\<close> it carries its own properties.
\<close>

datatype jsval =
    JUndefined
  | JNull
  | JBool bool
  | JNum rat
  | JStr string
  | JArr "jsval list"
  | JObj "(string \<times> jsval) list"
  | JFun "(string \<times> jsval) list"

datatype jstype = TUndefined | TObject | TBoolean | TNumber | TString | TFunction

fun typeof :: "jsval \<Rightarrow> jstype" where
  "typeof JUndefined = TUndefined"
| "typeof JNull = TObject"
| "typeof (JBool b) = TBoolean"
| "typeof (JNum n) = TNumber"
| "typeof (JStr s) = TString"
| "typeof (JArr xs) = TObject"
| "typeof (JObj ps) = TObject"
| "typeof (JFun ps) = TFunction"

fun truthy :: "jsval \<Rightarrow> bool" where
  "truthy JUndefined = False"
| "truthy JNull = False"
| "truthy (JBool b) = b"
| "truthy (JNum n) = (n \<noteq> 0)"
| "truthy (JStr s) = (s \<noteq> [])"
| "truthy (JArr xs) = True"
| "truthy (JObj ps) = True"
| "truthy (JFun ps) = True"

text \<open>
  \<open>opt_prop v p\<close> is \<^verbatim>\<open>v?.p\<close> for the property names the dispatcher reads (id, execute,
  description, inputSchema, outputSchema, list, name, arguments): none of them is a built-in
  property of a primitive or of an array, so only objects and callables can carry them.
\<close>

fun opt_prop :: "jsval \<Rightarrow> string \<Rightarrow> jsval" where
  "opt_prop (JObj ps) p = (case map_of ps p of Some v \<Rightarrow> v | None \<Rightarrow> JUndefined)"
| "opt_prop (JFun ps) p = (case map_of ps p of Some v \<Rightarrow> v | None \<Rightarrow> JUndefined)"
| "opt_prop v p = JUndefined"

text \<open>\<open>strict_prop v p\<close> is \<^verbatim>\<open>v.p\<close>: reading a property of undefined or null throws.\<close>

fun strict_prop :: "jsval \<Rightarrow> string \<Rightarrow> jsval option" where
  "strict_prop JUndefined p = None"
| "strict_prop JNull p = None"
| "strict_prop v p = Some (opt_prop v p)"

definition js_or :: "jsval \<Rightarrow> jsval \<Rightarrow> jsval" where
  "js_or a b = (if truthy a then a else b)"

text \<open>An optional string parameter of the request: absent and empty are both falsy.\<close>

fun truthy_param :: "string option \<Rightarrow> bool" where
  "truthy_param None = False"
| "truthy_param (Some s) = (s \<noteq> [])"

subsection \<open>Built-ins of the host\<close>

text \<open>
  The built-ins the dispatcher calls are parameters of the model: \<open>toString\<close> is the
  conversion of a non-string value in a template literal, \<open>jsonParse\<close> is
  \<^verbatim>\<open>JSON.parse\<close> (\<open>None\<close> when it throws), \<open>jsonStringify\<close> is
  \<^verbatim>\<open>JSON.stringify(v, null, 2)\<close> on JSON data.
\<close>

record host =
  toString :: "jsval \<Rightarrow> string"
  jsonParse :: "string \<Rightarrow> jsval option"
  jsonStringify :: "jsval \<Rightarrow> string"

fun to_str :: "host \<Rightarrow> jsval \<Rightarrow> string" where
  "to_str h (JStr s) = s"
| "to_str h v = toString h v"

definition digit_chars :: string where
  "digit_chars = ''0123456789''"

fun show_nat :: "nat \<Rightarrow> string" where
  "show_nat n = (if n < 10 then [digit_chars ! n]
                 else show_nat (n div 10) @ [digit_chars ! (n mod 10)])"

fun join :: "string \<Rightarrow> string list \<Rightarrow> string" where
  "join sep [] = []"
| "join sep [x] = x"
| "join sep (x # y # ys) = x @ sep @ join sep (y # ys)"

definition quoted :: "string \<Rightarrow> string" where
  "quoted s = [CHR 0x27] @ s @ [CHR 0x27]"

section \<open>The remote capability client\<close>

record resource_info =
  uri :: string
  name :: string
  description :: "string option"
  mimeType :: "string option"

text \<open>
  The result of \<^verbatim>\<open>resources.read\<close>, at the shapes the get_resource branch tells
  apart. A content part has an optional text and an optional blob (base64); an object result
  has \<open>contents\<close> (\<open>None\<close> when the field is absent or not an array), \<open>text\<close> and
  \<open>data\<close> (\<open>JUndefined\<close> when absent). String-valued fields are strings, as in
  the protocol's result schema, and \<open>data\<close> is a value of the deserialised reply: a
  callable there, which \<^verbatim>\<open>JSON.stringify\<close> maps to undefined, is outside the model. \<open>ResultObject None None JUndefined\<close> stands for every
  result with none of the fields (undefined and null among them).
\<close>

record content_part =
  part_text :: "string option"
  part_blob :: "string option"

datatype read_result =
    ResultString string
  | ResultObject "content_part list option" "string option" jsval

text \<open>
  One request sees one answer of each remote query: \<open>Inl msg\<close> is a rejected call with
  the message of the failure, \<open>Inr\<close> the value. A mapping is the list of its entries in
  the order of \<^verbatim>\<open>Object.entries\<close>. \<open>toolExecute k ctx\<close> is the outcome of calling
  the execute operation of the entry with key \<open>k\<close> on the context \<open>ctx\<close>; \<open>prompts\<close>
  is the value of the client's prompts property and \<open>promptsList\<close> the outcome of its
  list operation.
\<close>

record client =
  getTools :: "string + (string \<times> jsval) list"
  toolExecute :: "string \<Rightarrow> jsval \<Rightarrow> string + jsval"
  getResources :: "string + (string \<times> resource_info list) list"
  resourcesRead :: "string \<Rightarrow> string \<Rightarrow> string + read_result"
  prompts :: jsval
  promptsList :: "string + (string \<times> jsval) list"

section \<open>Results and errors\<close>

record tool_descriptor =
  fullKey :: string
  tool_id :: jsval
  server :: string
  tool_description :: jsval
  inputSchema :: jsval
  outputSchema :: jsval

record resource_data =
  data_uri :: string
  data_server :: string
  data_name :: string
  data_description :: "string option"
  data_mimeType :: "string option"
  content :: string
  isBinary :: bool
  truncated :: bool
  content_size :: nat

record prompt_descriptor =
  prompt_server :: string
  prompt_name :: jsval
  prompt_description :: jsval
  prompt_arguments :: jsval

datatype envelope_data =
    ToolList "tool_descriptor list"
  | ToolResult jsval string jsval
  | ResourceData resource_data
  | PromptList "prompt_descriptor list"

record envelope =
  action :: string
  data :: envelope_data
  message :: string

text \<open>
  The source throws \<^verbatim>\<open>Error\<close> objects that carry only a message. Each constructor is
  one throw site of the branches modelled here with the values its message is built from;
  \<open>error_message\<close> is the message the caller sees, after the catch of the branch and the
  catch of the dispatcher have each added their prefix.
\<close>

datatype mcp_error =
    MissingParameter string
  | ToolFetchFailed string
  | ToolNotFound string "string list"
  | ToolNotExecutable string
  | InvalidArguments string
  | ToolExecutionFailed string
  | ResourceFetchFailed string
  | ResourceNotFound string
  | ResourceReadFailed string

definition operation_failed :: "string \<Rightarrow> string" where
  "operation_failed m = ''MCP operation failed: '' @ m"

definition tool_failed :: "string \<Rightarrow> string" where
  "tool_failed m = operation_failed (''Failed to execute MCP tool: '' @ m)"

definition resource_failed :: "string \<Rightarrow> string" where
  "resource_failed m = operation_failed (''Failed to get MCP resource: '' @ m)"

fun error_message :: "mcp_error \<Rightarrow> string" where
  "error_message (MissingParameter m) = operation_failed m"
| "error_message (ToolFetchFailed m) = tool_failed m"
| "error_message (ToolNotFound tool_name keys) =
     tool_failed (''Tool '' @ quoted tool_name @ '' not found. Available tools: '' @ join '', '' keys)"
| "error_message (ToolNotExecutable k) =
     tool_failed (''Tool '' @ quoted k @ '' is not executable (missing execute function)'')"
| "error_message (InvalidArguments a) =
     tool_failed (''Invalid JSON format for tool_arguments: '' @ a)"
| "error_message (ToolExecutionFailed m) = tool_failed m"
| "error_message (ResourceFetchFailed m) = resource_failed m"
| "error_message (ResourceNotFound u) =
     resource_failed (''Resource '' @ quoted u @ '' not found. Use list_resources to see available resources.'')"
| "error_message (ResourceReadFailed m) = resource_failed m"

section \<open>list_tools\<close>

text \<open>
  The callback of \<^verbatim>\<open>Object.entries(toolMap).map\<close>: a descriptor for an entry that is a
  non-null object with a callable execute, null for every other entry.
  \<open>split_server k\<close> is \<^verbatim>\<open>k.split('_')[0] || 'Rube'\<close>.
\<close>

definition split_server :: "string \<Rightarrow> string" where
  "split_server k =
     (let prefix = takeWhile (\<lambda>c. c \<noteq> CHR ''_'') k in if prefix \<noteq> [] then prefix else ''Rube'')"

definition describe_tool :: "string \<times> jsval \<Rightarrow> tool_descriptor option" where
  "describe_tool entry =
     (case entry of (k, tool) \<Rightarrow>
        if typeof tool = TObject \<and> tool \<noteq> JNull \<and> typeof (opt_prop tool ''execute'') = TFunction
        then Some \<lparr> fullKey = k,
                    tool_id = js_or (opt_prop tool ''id'') (JStr k),
                    server = split_server k,
                    tool_description = js_or (opt_prop tool ''description'') (JStr ''No description available''),
                    inputSchema = opt_prop tool ''inputSchema'',
                    outputSchema = opt_prop tool ''outputSchema'' \<rparr>
        else None)"

text \<open>\<^verbatim>\<open>.filter(Boolean)\<close> on a list of descriptors and nulls: a descriptor is truthy.\<close>

fun filter_Boolean :: "'a option list \<Rightarrow> 'a list" where
  "filter_Boolean [] = []"
| "filter_Boolean (None # xs) = filter_Boolean xs"
| "filter_Boolean (Some x # xs) = x # filter_Boolean xs"

definition list_tools :: "client \<Rightarrow> mcp_error + envelope" where
  "list_tools c =
     (case getTools c of
        Inr toolMap \<Rightarrow>
          (let toolsList = filter_Boolean (map describe_tool toolMap)
           in Inr \<lparr> action = ''list_tools'',
                    data = ToolList toolsList,
                    message = ''Found '' @ show_nat (length toolsList) @ '' available MCP tools'' \<rparr>)
      | Inl err \<Rightarrow>
          Inr \<lparr> action = ''list_tools'',
                data = ToolList [],
                message = ''No MCP servers configured. Tools will be available once MCP servers are set up.'' \<rparr>)"

section \<open>execute_tool\<close>

text \<open>
  \<open>find_entry\<close> is the \<^verbatim>\<open>find\<close> over the entries of the tool map: one pass, with the
  predicate \<^verbatim>\<open>key === tool_name || tool?.id === tool_name\<close>. \<open>lookup_tool\<close> is
  \<^verbatim>\<open>toolMap[k]\<close> and \<open>executable_keys\<close> the filter over \<^verbatim>\<open>Object.keys(toolMap)\<close> in the
  message of the not-found error.
\<close>

definition matches :: "string \<Rightarrow> string \<times> jsval \<Rightarrow> bool" where
  "matches tool_name entry =
     (case entry of (k, tool) \<Rightarrow> k = tool_name \<or> opt_prop tool ''id'' = JStr tool_name)"

definition find_entry :: "(string \<times> jsval) list \<Rightarrow> string \<Rightarrow> (string \<times> jsval) option" where
  "find_entry toolMap tool_name = find (matches tool_name) toolMap"

definition lookup_tool :: "(string \<times> jsval) list \<Rightarrow> string \<Rightarrow> jsval" where
  "lookup_tool toolMap k = (case map_of toolMap k of Some tool \<Rightarrow> tool | None \<Rightarrow> JUndefined)"

definition executable_keys :: "(string \<times> jsval) list \<Rightarrow> string list" where
  "executable_keys toolMap =
     filter (\<lambda>k. typeof (opt_prop (lookup_tool toolMap k) ''execute'') = TFunction) (map fst toolMap)"

text \<open>
  The first half of the branch: the guard on \<^verbatim>\<open>tool_name\<close>, the fetch of the tool map,
  the search and the test that the entry found is executable. It invokes nothing.
\<close>

definition resolve_tool :: "client \<Rightarrow> string option \<Rightarrow> mcp_error + string \<times> jsval" where
  "resolve_tool c tool_name =
     (if \<not> truthy_param tool_name
      then Inl (MissingParameter ''Tool name is required for execute_tool action'')
      else
        (case getTools c of
           Inl err \<Rightarrow> Inl (ToolFetchFailed err)
         | Inr toolMap \<Rightarrow>
             (case find_entry toolMap (the tool_name) of
                None \<Rightarrow> Inl (ToolNotFound (the tool_name) (executable_keys toolMap))
              | Some (k, foundTool) \<Rightarrow>
                  if typeof (opt_prop foundTool ''execute'') \<noteq> TFunction
                  then Inl (ToolNotExecutable k)
                  else Inr (k, foundTool))))"

text \<open>
  \<open>parse_arguments\<close>: the empty object unless \<^verbatim>\<open>tool_arguments\<close> is truthy, else
  \<^verbatim>\<open>JSON.parse\<close>, whose exception becomes the invalid-arguments error with the text.
\<close>

definition parse_arguments :: "host \<Rightarrow> string option \<Rightarrow> mcp_error + jsval" where
  "parse_arguments h tool_arguments =
     (if truthy_param tool_arguments
      then (case jsonParse h (the tool_arguments) of
              Some v \<Rightarrow> Inr v
            | None \<Rightarrow> Inl (InvalidArguments (the tool_arguments)))
      else Inr (JObj []))"

text \<open>
  The branch returns its outcome together with the calls it made to execute operations of
  remote tools, each as the key of the entry and the context passed.
\<close>

definition execute_tool ::
  "host \<Rightarrow> client \<Rightarrow> string option \<Rightarrow> string option \<Rightarrow> (mcp_error + envelope) \<times> (string \<times> jsval) list" where
  "execute_tool h c tool_name tool_arguments =
     (case resolve_tool c tool_name of
        Inl e \<Rightarrow> (Inl e, [])
      | Inr (k, foundTool) \<Rightarrow>
          (case parse_arguments h tool_arguments of
             Inl e \<Rightarrow> (Inl e, [])
           | Inr parsedArguments \<Rightarrow>
               (case toolExecute c k parsedArguments of
                  Inl err \<Rightarrow> (Inl (ToolExecutionFailed err), [(k, parsedArguments)])
                | Inr result \<Rightarrow>
                    (let shown = js_or (opt_prop foundTool ''id'') (JStr k)
                     in (Inr \<lparr> action = ''execute_tool'',
                               data = ToolResult shown k result,
                               message = ''Successfully executed tool '' @ quoted (to_str h shown) \<rparr>,
                         [(k, parsedArguments)])))))"

section \<open>get_resource\<close>

text \<open>
  The loop over \<^verbatim>\<open>Object.entries(resources)\<close>: the first server, in the order of the
  entries, one of whose resources has the URI, with the first such resource of that server.
\<close>

fun find_resource ::
  "(string \<times> resource_info list) list \<Rightarrow> string \<Rightarrow> (string \<times> resource_info) option" where
  "find_resource [] resource_uri = None"
| "find_resource ((serverName, serverResources) # rest) resource_uri =
     (case find (\<lambda>r. uri r = resource_uri) serverResources of
        Some found \<Rightarrow> Some (serverName, found)
      | None \<Rightarrow> find_resource rest resource_uri)"

text \<open>
  The loop over the content parts, from the content accumulated so far: a part with a truthy
  text is appended, otherwise a part with a truthy blob replaces the content, sets
  \<^verbatim>\<open>isBinary\<close> and ends the loop, and a part with neither is skipped.
\<close>

fun collect_parts :: "string \<Rightarrow> content_part list \<Rightarrow> string \<times> bool" where
  "collect_parts acc [] = (acc, False)"
| "collect_parts acc (item # rest) =
     (if truthy_param (part_text item) then collect_parts (acc @ the (part_text item)) rest
      else if truthy_param (part_blob item) then (the (part_blob item), True)
      else collect_parts acc rest)"

fun extract_content :: "host \<Rightarrow> read_result \<Rightarrow> string \<times> bool" where
  "extract_content h (ResultObject (Some parts) t d) = collect_parts [] parts"
| "extract_content h (ResultString s) = (s, False)"
| "extract_content h (ResultObject None t d) =
     (if truthy_param t then (the t, False)
      else if truthy d then ((case d of JStr s \<Rightarrow> s | _ \<Rightarrow> jsonStringify h d), False)
      else ([], False))"

text \<open>
  \<open>max_size\<close> is \<^verbatim>\<open>max_bytes || 100000\<close>; \<open>substring0 s n\<close> is
  \<^verbatim>\<open>s.substring(0, n)\<close>: the end index is truncated to an integer and clamped to the
  string.
\<close>

definition max_size :: "rat option \<Rightarrow> rat" where
  "max_size max_bytes = (case max_bytes of Some q \<Rightarrow> if q \<noteq> 0 then q else 100000 | None \<Rightarrow> 100000)"

definition substring0 :: "string \<Rightarrow> rat \<Rightarrow> string" where
  "substring0 s n = take (nat (if n < 0 then \<lceil>n\<rceil> else \<lfloor>n\<rfloor>)) s"

definition resource_envelope ::
  "host \<Rightarrow> string \<Rightarrow> string \<Rightarrow> resource_info \<Rightarrow> rat option \<Rightarrow> read_result \<Rightarrow> envelope" where
  "resource_envelope h resource_uri targetServer resourceInfo max_bytes result =
     (let (extracted, binary) = extract_content h result;
          maxSize = max_size max_bytes;
          cut = (\<not> binary \<and> rat_of_nat (length extracted) > maxSize);
          final = (if cut then substring0 extracted maxSize else extracted)
      in \<lparr> action = ''get_resource'',
           data = ResourceData
             \<lparr> data_uri = resource_uri,
               data_server = targetServer,
               data_name = name resourceInfo,
               data_description = description resourceInfo,
               data_mimeType = mimeType resourceInfo,
               content = final,
               isBinary = binary,
               truncated = cut,
               content_size = length final \<rparr>,
           message = ''Successfully retrieved resource '' @ quoted (name resourceInfo)
                     @ '' from server '' @ quoted targetServer
                     @ (if cut then '' (truncated)'' else []) \<rparr>)"

text \<open>
  The branch: the guard on \<^verbatim>\<open>resource_uri\<close>, the fetch of the per-server lists, the
  search, the test \<^verbatim>\<open>!targetServer || !resourceInfo\<close> (a resource found is an object, so
  only an empty server name is falsy there), the read from the owning server and the content
  policy. The request's \<^verbatim>\<open>as_text\<close> is not read by the source.
\<close>

definition get_resource :: "host \<Rightarrow> client \<Rightarrow> string option \<Rightarrow> rat option \<Rightarrow> mcp_error + envelope" where
  "get_resource h c resource_uri max_bytes =
     (if \<not> truthy_param resource_uri
      then Inl (MissingParameter ''Resource URI is required for get_resource action'')
      else
        (case getResources c of
           Inl err \<Rightarrow> Inl (ResourceFetchFailed err)
         | Inr resources \<Rightarrow>
             (case find_resource resources (the resource_uri) of
                None \<Rightarrow> Inl (ResourceNotFound (the resource_uri))
              | Some (targetServer, resourceInfo) \<Rightarrow>
                  if targetServer = [] then Inl (ResourceNotFound (the resource_uri))
                  else
                    (case resourcesRead c targetServer (the resource_uri) of
                       Inl err \<Rightarrow> Inl (ResourceReadFailed err)
                     | Inr result \<Rightarrow>
                         Inr (resource_envelope h (the resource_uri) targetServer resourceInfo
                                max_bytes result)))))"

section \<open>list_prompts\<close>

text \<open>
  The callback that describes one prompt: \<^verbatim>\<open>prompt.name\<close> throws on undefined and null,
  which the catch of the branch turns into the empty list. The items are values of the
  deserialised reply; a callable item, whose \<^verbatim>\<open>arguments\<close> may throw, is outside the model.
\<close>

definition describe_prompt :: "string \<Rightarrow> jsval \<Rightarrow> prompt_descriptor option" where
  "describe_prompt serverName prompt =
     (case strict_prop prompt ''name'' of
        None \<Rightarrow> None
      | Some n \<Rightarrow>
          Some \<lparr> prompt_server = serverName,
                 prompt_name = n,
                 prompt_description = js_or (opt_prop prompt ''description'') (JStr ''No description available''),
                 prompt_arguments = js_or (opt_prop prompt ''arguments'') (JArr []) \<rparr>)"

definition server_prompts :: "string \<times> jsval \<Rightarrow> prompt_descriptor list option" where
  "server_prompts entry =
     (case entry of (serverName, serverPrompts) \<Rightarrow>
        (case serverPrompts of
           JArr items \<Rightarrow> those (map (describe_prompt serverName) items)
         | _ \<Rightarrow> Some []))"

definition flatten_prompts :: "(string \<times> jsval) list \<Rightarrow> prompt_descriptor list option" where
  "flatten_prompts ps = map_option concat (those (map server_prompts ps))"

definition no_prompts :: "string \<Rightarrow> envelope" where
  "no_prompts m = \<lparr> action = ''list_prompts'', data = PromptList [], message = m \<rparr>"

definition list_prompts :: "client \<Rightarrow> mcp_error + envelope" where
  "list_prompts c =
     (if \<not> truthy (prompts c) \<or> typeof (opt_prop (prompts c) ''list'') \<noteq> TFunction
      then Inr (no_prompts ''Prompts are not supported by the current MCP server configuration.'')
      else
        (case promptsList c of
           Inl err \<Rightarrow> Inr (no_prompts ''No prompts available from MCP servers.'')
         | Inr listed \<Rightarrow>
             (case flatten_prompts listed of
                None \<Rightarrow> Inr (no_prompts ''No prompts available from MCP servers.'')
              | Some described \<Rightarrow>
                  Inr \<lparr> action = ''list_prompts'',
                        data = PromptList described,
                        message = ''Found '' @ show_nat (length described) @ '' available MCP prompts'' \<rparr>)))"

section \<open>Reference definitions and sample inputs\<close>

text \<open>
  An entry that is a non-null object exposing a callable execute operation, read on the
  shape of the value.
\<close>

fun executable_object :: "jsval \<Rightarrow> bool" where
  "executable_object (JObj ps) = (case map_of ps ''execute'' of Some (JFun fs) \<Rightarrow> True | _ \<Rightarrow> False)"
| "executable_object v = False"

text \<open>
  The resolution as the specification words it: exact key equality against all entries
  first, the declared id only if no key matches. It is compared below with \<open>find_entry\<close>,
  which is what the source does.
\<close>

definition resolve_key_first :: "(string \<times> jsval) list \<Rightarrow> string \<Rightarrow> (string \<times> jsval) option" where
  "resolve_key_first toolMap tool_name =
     (case find (\<lambda>e. fst e = tool_name) toolMap of
        Some e \<Rightarrow> Some e
      | None \<Rightarrow> find (\<lambda>e. opt_prop (snd e) ''id'' = JStr tool_name) toolMap)"

text \<open>
  The two kinds of content part the loop of get_resource tells apart: a part carries text
  when its text is truthy, and carries binary content instead when it has no truthy text and
  a truthy blob. The source tests the text first, so a part with both counts as text.
  \<open>texts_of\<close> is the concatenation, in order, of the texts of the text-bearing parts.
\<close>

definition text_part :: "content_part \<Rightarrow> bool" where
  "text_part p = truthy_param (part_text p)"

definition binary_part :: "content_part \<Rightarrow> bool" where
  "binary_part p = (\<not> truthy_param (part_text p) \<and> truthy_param (part_blob p))"

definition texts_of :: "content_part list \<Rightarrow> string" where
  "texts_of parts = concat (map (\<lambda>p. the (part_text p)) (filter text_part parts))"

text \<open>
  Sample inputs for the instances below. The host of the samples parses only the text
  \<^verbatim>\<open>{}\<close>; \<open>tools_client\<close> is a client that answers the tool query with the given map and
  has no resources and no prompts capability.
\<close>

definition sample_host :: host where
  "sample_host = \<lparr> toString = (\<lambda>v. ''[object Object]''),
                    jsonParse = (\<lambda>s. if s = ''{}'' then Some (JObj []) else None),
                    jsonStringify = (\<lambda>v. ''{}'') \<rparr>"

definition sample_tools :: "(string \<times> jsval) list" where
  "sample_tools =
     [(''rube_SEARCH'', JObj [(''id'', JStr ''RUBE_SEARCH''), (''execute'', JFun [])]),
      (''version'', JStr ''1.0''),
      (''rube_DRAFT'', JObj [(''id'', JStr ''RUBE_DRAFT'')]),
      (''rube_RUN'', JObj [(''execute'', JFun [])])]"

definition shadowed_tools :: "(string \<times> jsval) list" where
  "shadowed_tools =
     [(''rube_A'', JObj [(''id'', JStr ''rube_B''), (''execute'', JFun [])]),
      (''rube_B'', JObj [(''id'', JStr ''B''), (''execute'', JFun [])])]"

definition tools_client :: "(string \<times> jsval) list \<Rightarrow> client" where
  "tools_client toolMap =
     \<lparr> getTools = Inr toolMap,
       toolExecute = (\<lambda>k ctx. Inr (JStr ''done'')),
       getResources = Inl ''no servers'',
       resourcesRead = (\<lambda>s u. Inl ''no servers''),
       prompts = JUndefined,
       promptsList = Inl ''no servers'' \<rparr>"

text \<open>
  Two servers with one resource each; \<open>resource_client\<close> answers the resource query with
  the given lists and the read of \<^verbatim>\<open>doc://b\<close> on server beta with the given result.
\<close>

definition sample_resources :: "(string \<times> resource_info list) list" where
  "sample_resources =
     [(''alpha'', [\<lparr> uri = ''doc://a'', name = ''A'', description = None, mimeType = None \<rparr>]),
      (''beta'', [\<lparr> uri = ''doc://b'', name = ''B'', description = Some ''notes'',
                    mimeType = Some ''text/plain'' \<rparr>])]"

definition resource_client :: "(string \<times> resource_info list) list \<Rightarrow> read_result \<Rightarrow> client" where
  "resource_client resources result =
     \<lparr> getTools = Inl ''no servers'',
       toolExecute = (\<lambda>k ctx. Inl ''no servers''),
       getResources = Inr resources,
       resourcesRead = (\<lambda>s u. if s = ''beta'' \<and> u = ''doc://b'' then Inr result else Inl ''unknown resource''),
       prompts = JObj [],
       promptsList = Inl ''no servers'' \<rparr>"

definition text_result :: "string \<Rightarrow> read_result" where
  "text_result s = ResultObject (Some [\<lparr> part_text = Some s, part_blob = None \<rparr>]) None JUndefined"

definition hundred_chars :: string where
  "hundred_chars = ''0123456789012345678901234567890123456789012345678901234567890123456789012345678901234567890123456789''"

definition beta_info :: resource_info where
  "beta_info = \<lparr> uri = ''doc://b'', name = ''B'', description = Some ''notes'',
                  mimeType = Some ''text/plain'' \<rparr>"

definition text_of :: "string \<Rightarrow> content_part" where
  "text_of s = \<lparr> part_text = Some s, part_blob = None \<rparr>"

definition blob_of :: "string \<Rightarrow> content_part" where
  "blob_of s = \<lparr> part_text = None, part_blob = Some s \<rparr>"

section \<open>Properties of list_tools\<close>

lemma typeof_function_iff: "typeof v = TFunction \<longleftrightarrow> (\<exists>fs. v = JFun fs)"
  by (cases v) auto

lemma describe_tool_None_iff: "describe_tool (k, t) = None \<longleftrightarrow> \<not> executable_object t"
  by (cases t) (auto simp: describe_tool_def typeof_function_iff split: option.splits jsval.splits)

lemma describe_tool_fullKey: "describe_tool (k, t) = Some d \<Longrightarrow> fullKey d = k"
  by (auto simp: describe_tool_def split: if_splits)

lemma filter_Boolean_keys:
  "map fullKey (filter_Boolean (map describe_tool toolMap)) =
   map fst (filter (\<lambda>e. executable_object (snd e)) toolMap)"
proof (induction toolMap)
  case Nil
  show ?case by simp
next
  case (Cons e es)
  obtain k t where e: "e = (k, t)" by (cases e)
  show ?case
  proof (cases "describe_tool (k, t)")
    case None
    then have "\<not> executable_object t" using describe_tool_None_iff[of k t] by simp
    with Cons e None show ?thesis by simp
  next
    case (Some d)
    then have "executable_object t" using describe_tool_None_iff[of k t] by simp
    with Cons e Some show ?thesis by (simp add: describe_tool_fullKey)
  qed
qed

text \<open>
  Claim C2. For every flat tool mapping, the list returned by list_tools has exactly one
  descriptor per entry whose value is a non-null object exposing a callable execute
  operation, in the order of the entries, and none for any other entry; its length is the
  number of such entries.
\<close>

theorem list_tools_executable_entries:
  assumes "getTools c = Inr toolMap"
  shows "\<exists>ds m. list_tools c = Inr \<lparr> action = ''list_tools'', data = ToolList ds, message = m \<rparr>
           \<and> map fullKey ds = map fst (filter (\<lambda>e. executable_object (snd e)) toolMap)
           \<and> length ds = length (filter (\<lambda>e. executable_object (snd e)) toolMap)"
proof -
  let ?ds = "filter_Boolean (map describe_tool toolMap)"
  have keys: "map fullKey ?ds = map fst (filter (\<lambda>e. executable_object (snd e)) toolMap)"
    by (rule filter_Boolean_keys)
  have "length (map fullKey ?ds) = length (map fst (filter (\<lambda>e. executable_object (snd e)) toolMap))"
    by (simp only: keys)
  then have len: "length ?ds = length (filter (\<lambda>e. executable_object (snd e)) toolMap)"
    by simp
  from assms have "list_tools c = Inr \<lparr> action = ''list_tools'', data = ToolList ?ds,
      message = ''Found '' @ show_nat (length ?ds) @ '' available MCP tools'' \<rparr>"
    by (simp add: list_tools_def Let_def)
  with keys len show ?thesis by blast
qed

theorem list_tools_executable_entries_witness:
  "getTools (tools_client sample_tools) = Inr sample_tools \<and>
   (\<exists>ds m. list_tools (tools_client sample_tools) = Inr \<lparr> action = ''list_tools'', data = ToolList ds, message = m \<rparr>
      \<and> map fullKey ds = [''rube_SEARCH'', ''rube_RUN''] \<and> length ds = 2)"
proof -
  have g: "getTools (tools_client sample_tools) = Inr sample_tools"
    by (simp add: tools_client_def)
  from list_tools_executable_entries [OF g] obtain ds m where
    l: "list_tools (tools_client sample_tools) = Inr \<lparr> action = ''list_tools'', data = ToolList ds, message = m \<rparr>"
    and k: "map fullKey ds = map fst (filter (\<lambda>e. executable_object (snd e)) sample_tools)"
    and n: "length ds = length (filter (\<lambda>e. executable_object (snd e)) sample_tools)"
    by blast
  from k have "map fullKey ds = [''rube_SEARCH'', ''rube_RUN'']" by (simp add: sample_tools_def)
  moreover from n have "length ds = 2" by (simp add: sample_tools_def)
  ultimately show ?thesis using g l by auto
qed

section \<open>Properties of execute_tool\<close>

lemma find_first_match:
  "find P xs = Some x \<longleftrightarrow> (\<exists>pre post. xs = pre @ x # post \<and> P x \<and> (\<forall>y\<in>set pre. \<not> P y))"
proof (induction xs)
  case Nil
  show ?case by simp
next
  case (Cons a xs)
  show ?case
  proof (cases "P a")
    case True
    have "(\<exists>pre post. a # xs = pre @ x # post \<and> P x \<and> (\<forall>y\<in>set pre. \<not> P y)) \<longleftrightarrow> a = x"
    proof
      assume "\<exists>pre post. a # xs = pre @ x # post \<and> P x \<and> (\<forall>y\<in>set pre. \<not> P y)"
      then obtain pre post where h: "a # xs = pre @ x # post" "\<forall>y\<in>set pre. \<not> P y" by blast
      show "a = x"
      proof (cases pre)
        case Nil
        with h show ?thesis by simp
      next
        case (Cons b bs)
        with h True show ?thesis by simp
      qed
    next
      assume "a = x"
      with True have "a # xs = [] @ x # xs \<and> P x \<and> (\<forall>y\<in>set []. \<not> P y)" by simp
      then show "\<exists>pre post. a # xs = pre @ x # post \<and> P x \<and> (\<forall>y\<in>set pre. \<not> P y)" by blast
    qed
    with True show ?thesis by simp
  next
    case False
    have "(\<exists>pre post. a # xs = pre @ x # post \<and> P x \<and> (\<forall>y\<in>set pre. \<not> P y))
          \<longleftrightarrow> (\<exists>pre post. xs = pre @ x # post \<and> P x \<and> (\<forall>y\<in>set pre. \<not> P y))"
    proof
      assume "\<exists>pre post. a # xs = pre @ x # post \<and> P x \<and> (\<forall>y\<in>set pre. \<not> P y)"
      then obtain pre post where h: "a # xs = pre @ x # post" "P x" "\<forall>y\<in>set pre. \<not> P y" by blast
      show "\<exists>pre post. xs = pre @ x # post \<and> P x \<and> (\<forall>y\<in>set pre. \<not> P y)"
      proof (cases pre)
        case Nil
        with h False show ?thesis by simp
      next
        case (Cons b bs)
        with h have "xs = bs @ x # post \<and> P x \<and> (\<forall>y\<in>set bs. \<not> P y)" by simp
        then show ?thesis by blast
      qed
    next
      assume "\<exists>pre post. xs = pre @ x # post \<and> P x \<and> (\<forall>y\<in>set pre. \<not> P y)"
      then obtain pre post where h: "xs = pre @ x # post" "P x" "\<forall>y\<in>set pre. \<not> P y" by blast
      with False have "a # xs = (a # pre) @ x # post \<and> P x \<and> (\<forall>y\<in>set (a # pre). \<not> P y)" by simp
      then show "\<exists>pre post. a # xs = pre @ x # post \<and> P x \<and> (\<forall>y\<in>set pre. \<not> P y)" by blast
    qed
    with False Cons show ?thesis by simp
  qed
qed

lemma resolve_tool_Inr_iff:
  "resolve_tool c tool_name = Inr (k, foundTool) \<longleftrightarrow>
     (\<exists>n toolMap. tool_name = Some n \<and> n \<noteq> [] \<and> getTools c = Inr toolMap \<and>
        find_entry toolMap n = Some (k, foundTool) \<and>
        typeof (opt_prop foundTool ''execute'') = TFunction)"
  by (cases tool_name) (auto simp: resolve_tool_def split: sum.splits option.splits if_splits)

lemma find_entry_first:
  assumes "toolMap = pre @ (k, tool) # post"
    and "\<forall>(k', tool')\<in>set pre. k' \<noteq> tool_name \<and> opt_prop tool' ''id'' \<noteq> JStr tool_name"
    and "k = tool_name \<or> opt_prop tool ''id'' = JStr tool_name"
  shows "find_entry toolMap tool_name = Some (k, tool)"
proof -
  from assms(2) have "\<forall>e\<in>set pre. \<not> matches tool_name e"
    by (auto simp: matches_def)
  moreover from assms(3) have "matches tool_name (k, tool)"
    by (simp add: matches_def)
  ultimately have "toolMap = pre @ (k, tool) # post \<and> matches tool_name (k, tool)
      \<and> (\<forall>e\<in>set pre. \<not> matches tool_name e)"
    using assms(1) by simp
  then have "\<exists>pre' post'. toolMap = pre' @ (k, tool) # post' \<and> matches tool_name (k, tool)
      \<and> (\<forall>e\<in>set pre'. \<not> matches tool_name e)"
    by (intro exI [of _ pre] exI [of _ post])
  then show ?thesis
    unfolding find_entry_def by (simp only: find_first_match)
qed

text \<open>
  Claim C1, as amended. For every flat tool mapping and every non-empty \<open>tool_name\<close>,
  execute_tool resolves the identifier in one pass over the entries, in the order of the
  mapping, testing each entry for exact key equality and then for its declared id: the entry
  it resolves is the first one that passes either test, and that entry is the one executed
  (or the one reported as not executable). So an entry whose key equals \<open>tool_name\<close> is
  resolved when no matching entry precedes it, and is not preferred over an earlier entry
  whose id equals \<open>tool_name\<close>.
\<close>

theorem execute_tool_single_pass:
  assumes "tool_name \<noteq> []"
    and "getTools c = Inr toolMap"
    and "toolMap = pre @ (k, tool) # post"
    and "\<forall>(k', tool')\<in>set pre. k' \<noteq> tool_name \<and> opt_prop tool' ''id'' \<noteq> JStr tool_name"
    and "k = tool_name \<or> opt_prop tool ''id'' = JStr tool_name"
  shows "resolve_tool c (Some tool_name)
           = (if typeof (opt_prop tool ''execute'') = TFunction then Inr (k, tool)
              else Inl (ToolNotExecutable k))
         \<and> (k \<noteq> tool_name \<longrightarrow> resolve_tool c (Some tool_name) \<noteq> Inr (tool_name, tool'))
         \<and> (typeof (opt_prop tool ''execute'') \<noteq> TFunction \<longrightarrow>
              execute_tool h c (Some tool_name) tool_arguments = (Inl (ToolNotExecutable k), []))
         \<and> (typeof (opt_prop tool ''execute'') = TFunction \<and> parse_arguments h tool_arguments = Inr ctx \<longrightarrow>
              execute_tool h c (Some tool_name) tool_arguments
                = (case toolExecute c k ctx of
                     Inl err \<Rightarrow> (Inl (ToolExecutionFailed err), [(k, ctx)])
                   | Inr result \<Rightarrow>
                       (Inr \<lparr> action = ''execute_tool'',
                              data = ToolResult (js_or (opt_prop tool ''id'') (JStr k)) k result,
                              message = ''Successfully executed tool ''
                                @ quoted (to_str h (js_or (opt_prop tool ''id'') (JStr k))) \<rparr>,
                        [(k, ctx)])))"
proof -
  from assms(3-5) have f: "find_entry toolMap tool_name = Some (k, tool)"
    by (rule find_entry_first)
  with assms(1,2) have r: "resolve_tool c (Some tool_name)
           = (if typeof (opt_prop tool ''execute'') = TFunction then Inr (k, tool)
              else Inl (ToolNotExecutable k))"
    by (simp add: resolve_tool_def)
  from r have n: "k \<noteq> tool_name \<longrightarrow> resolve_tool c (Some tool_name) \<noteq> Inr (tool_name, tool')"
    by (simp split: if_splits)
  from r have x: "typeof (opt_prop tool ''execute'') \<noteq> TFunction \<longrightarrow>
              execute_tool h c (Some tool_name) tool_arguments = (Inl (ToolNotExecutable k), [])"
    by (simp add: execute_tool_def)
  from r have e: "typeof (opt_prop tool ''execute'') = TFunction \<and> parse_arguments h tool_arguments = Inr ctx \<longrightarrow>
              execute_tool h c (Some tool_name) tool_arguments
                = (case toolExecute c k ctx of
                     Inl err \<Rightarrow> (Inl (ToolExecutionFailed err), [(k, ctx)])
                   | Inr result \<Rightarrow>
                       (Inr \<lparr> action = ''execute_tool'',
                              data = ToolResult (js_or (opt_prop tool ''id'') (JStr k)) k result,
                              message = ''Successfully executed tool ''
                                @ quoted (to_str h (js_or (opt_prop tool ''id'') (JStr k))) \<rparr>,
                        [(k, ctx)]))"
    by (simp add: execute_tool_def Let_def split: sum.splits)
  from r n x e show ?thesis by (intro conjI)
qed

text \<open>
  Claim C1 as stated fails: with the id of the first entry equal to the key of the second,
  the source resolves the name to the first entry, where the resolution that checks all
  keys first gives the second.
\<close>

theorem key_first_counterexample:
  "resolve_tool (tools_client shadowed_tools) (Some ''rube_B'')
     = Inr (''rube_A'', JObj [(''id'', JStr ''rube_B''), (''execute'', JFun [])])
   \<and> resolve_key_first shadowed_tools ''rube_B''
     = Some (''rube_B'', JObj [(''id'', JStr ''B''), (''execute'', JFun [])])"
  by (simp add: resolve_tool_def tools_client_def shadowed_tools_def find_entry_def matches_def
      resolve_key_first_def)

theorem execute_tool_single_pass_witness:
  "resolve_tool (tools_client shadowed_tools) (Some ''rube_B'')
     = Inr (''rube_A'', JObj [(''id'', JStr ''rube_B''), (''execute'', JFun [])])
   \<and> resolve_tool (tools_client shadowed_tools) (Some ''rube_B'')
       \<noteq> Inr (''rube_B'', JObj [(''id'', JStr ''B''), (''execute'', JFun [])])
   \<and> execute_tool sample_host (tools_client shadowed_tools) (Some ''rube_B'') None
     = (Inr \<lparr> action = ''execute_tool'',
              data = ToolResult (JStr ''rube_B'') ''rube_A'' (JStr ''done''),
              message = ''Successfully executed tool '' @ [CHR 0x27] @ ''rube_B'' @ [CHR 0x27] \<rparr>,
        [(''rube_A'', JObj [])])
   \<and> resolve_tool (tools_client sample_tools) (Some ''rube_RUN'')
     = Inr (''rube_RUN'', JObj [(''execute'', JFun [])])
   \<and> execute_tool sample_host (tools_client sample_tools) (Some ''RUBE_DRAFT'') None
     = (Inl (ToolNotExecutable ''rube_DRAFT''), [])"
proof -
  let ?a = "JObj [(''id'', JStr ''rube_B''), (''execute'', JFun [])]"
  let ?b = "JObj [(''id'', JStr ''B''), (''execute'', JFun [])]"
  have n: "''rube_B'' \<noteq> []" by simp
  have g: "getTools (tools_client shadowed_tools) = Inr shadowed_tools"
    by (simp add: tools_client_def)
  have m: "shadowed_tools = [] @ (''rube_A'', ?a) # [(''rube_B'', ?b)]"
    by (simp add: shadowed_tools_def)
  have p: "\<forall>(k', tool')\<in>set []. k' \<noteq> ''rube_B'' \<and> opt_prop tool' ''id'' \<noteq> JStr ''rube_B''"
    by simp
  have i: "''rube_A'' = ''rube_B'' \<or> opt_prop ?a ''id'' = JStr ''rube_B''" by simp
  have pa: "parse_arguments sample_host None = Inr (JObj [])" by (simp add: parse_arguments_def)
  have te: "toolExecute (tools_client shadowed_tools) ''rube_A'' (JObj []) = Inr (JStr ''done'')"
    by (simp add: tools_client_def)
  from execute_tool_single_pass [OF n g m p i, of ?b sample_host None "JObj []"] pa te
  have 1: "resolve_tool (tools_client shadowed_tools) (Some ''rube_B'') = Inr (''rube_A'', ?a)"
    and 2: "resolve_tool (tools_client shadowed_tools) (Some ''rube_B'') \<noteq> Inr (''rube_B'', ?b)"
    and 3: "execute_tool sample_host (tools_client shadowed_tools) (Some ''rube_B'') None
     = (Inr \<lparr> action = ''execute_tool'',
              data = ToolResult (JStr ''rube_B'') ''rube_A'' (JStr ''done''),
              message = ''Successfully executed tool '' @ [CHR 0x27] @ ''rube_B'' @ [CHR 0x27] \<rparr>,
        [(''rube_A'', JObj [])])"
    by (simp_all add: js_or_def quoted_def)
  let ?r = "JObj [(''execute'', JFun [])]"
  let ?front = "[(''rube_SEARCH'', JObj [(''id'', JStr ''RUBE_SEARCH''), (''execute'', JFun [])]),
      (''version'', JStr ''1.0''), (''rube_DRAFT'', JObj [(''id'', JStr ''RUBE_DRAFT'')])]"
  have n': "''rube_RUN'' \<noteq> []" by simp
  have g': "getTools (tools_client sample_tools) = Inr sample_tools"
    by (simp add: tools_client_def)
  have m': "sample_tools = ?front @ (''rube_RUN'', ?r) # []" by (simp add: sample_tools_def)
  have p': "\<forall>(k', tool')\<in>set ?front. k' \<noteq> ''rube_RUN'' \<and> opt_prop tool' ''id'' \<noteq> JStr ''rube_RUN''"
    by simp
  have i': "''rube_RUN'' = ''rube_RUN'' \<or> opt_prop ?r ''id'' = JStr ''rube_RUN''" by simp
  from execute_tool_single_pass [OF n' g' m' p' i']
  have 4: "resolve_tool (tools_client sample_tools) (Some ''rube_RUN'') = Inr (''rube_RUN'', ?r)"
    by simp
  let ?d = "JObj [(''id'', JStr ''RUBE_DRAFT'')]"
  let ?head = "[(''rube_SEARCH'', JObj [(''id'', JStr ''RUBE_SEARCH''), (''execute'', JFun [])]),
      (''version'', JStr ''1.0'')]"
  have n2: "''RUBE_DRAFT'' \<noteq> []" by simp
  have m2: "sample_tools = ?head @ (''rube_DRAFT'', ?d) # [(''rube_RUN'', ?r)]"
    by (simp add: sample_tools_def)
  have p2: "\<forall>(k', tool')\<in>set ?head. k' \<noteq> ''RUBE_DRAFT'' \<and> opt_prop tool' ''id'' \<noteq> JStr ''RUBE_DRAFT''"
    by simp
  have i2: "''rube_DRAFT'' = ''RUBE_DRAFT'' \<or> opt_prop ?d ''id'' = JStr ''RUBE_DRAFT''" by simp
  from execute_tool_single_pass [OF n2 g' m2 p2 i2, of _ sample_host None]
  have 5: "execute_tool sample_host (tools_client sample_tools) (Some ''RUBE_DRAFT'') None
     = (Inl (ToolNotExecutable ''rube_DRAFT''), [])"
    by simp
  from 1 2 3 4 5 show ?thesis by simp
qed

lemma sublist_join: "k \<in> set ks \<Longrightarrow> sublist k (join sep ks)"
proof (induction sep ks rule: join.induct)
  case (1 sep)
  then show ?case by simp
next
  case (2 sep x)
  then show ?case by simp
next
  case (3 sep x y ys)
  show ?case
  proof (cases "k = x")
    case True
    then show ?thesis by simp
  next
    case False
    with 3 have "sublist k (join sep (y # ys))" by simp
    then obtain ps ss where "join sep (y # ys) = ps @ k @ ss" by (auto simp: sublist_def)
    then have "join sep (x # y # ys) = (x @ sep @ ps) @ k @ ss" by simp
    then show ?thesis unfolding sublist_def by blast
  qed
qed

lemma executable_keys_member:
  assumes "map_of toolMap k = Some tool" "typeof (opt_prop tool ''execute'') = TFunction"
  shows "k \<in> set (executable_keys toolMap)"
proof -
  from assms(1) have "(k, tool) \<in> set toolMap" by (rule map_of_SomeD)
  then have "k \<in> fst ` set toolMap" by force
  moreover from assms have "typeof (opt_prop (lookup_tool toolMap k) ''execute'') = TFunction"
    by (simp add: lookup_tool_def)
  ultimately show ?thesis by (simp add: executable_keys_def)
qed

lemma not_found_message_lists:
  assumes "k \<in> set keys"
  shows "sublist k (error_message (ToolNotFound tool_name keys))"
proof -
  from assms have "sublist k (join '', '' keys)" by (rule sublist_join)
  then obtain ps ss where j: "join '', '' keys = ps @ k @ ss" by (auto simp: sublist_def)
  have "error_message (ToolNotFound tool_name keys)
        = (''MCP operation failed: Failed to execute MCP tool: Tool '' @ quoted tool_name
            @ '' not found. Available tools: '' @ ps) @ k @ ss"
    by (simp add: tool_failed_def operation_failed_def j)
  then show ?thesis unfolding sublist_def by blast
qed

text \<open>
  Claim C7, as amended. For every flat tool mapping and every non-empty \<open>tool_name\<close> that
  equals no entry's key and no entry's id, execute_tool fails with the not-found error and
  invokes nothing, and the message of the error contains every key of the mapping whose
  value exposes a callable execute operation.
\<close>

theorem unknown_tool_not_found:
  assumes "tool_name \<noteq> []"
    and "getTools c = Inr toolMap"
    and "\<forall>(k, tool)\<in>set toolMap. k \<noteq> tool_name \<and> opt_prop tool ''id'' \<noteq> JStr tool_name"
  shows "execute_tool h c (Some tool_name) tool_arguments
           = (Inl (ToolNotFound tool_name (executable_keys toolMap)), [])
         \<and> (\<forall>k tool. map_of toolMap k = Some tool \<and> typeof (opt_prop tool ''execute'') = TFunction
              \<longrightarrow> sublist k (error_message (ToolNotFound tool_name (executable_keys toolMap))))"
proof
  from assms(3) have "\<forall>e\<in>set toolMap. \<not> matches tool_name e"
    by (auto simp: matches_def)
  then have "find_entry toolMap tool_name = None"
    by (simp add: find_entry_def find_None_iff)
  with assms(1,2) show "execute_tool h c (Some tool_name) tool_arguments
           = (Inl (ToolNotFound tool_name (executable_keys toolMap)), [])"
    by (simp add: execute_tool_def resolve_tool_def)
next
  show "\<forall>k tool. map_of toolMap k = Some tool \<and> typeof (opt_prop tool ''execute'') = TFunction
              \<longrightarrow> sublist k (error_message (ToolNotFound tool_name (executable_keys toolMap)))"
    using executable_keys_member not_found_message_lists by blast
qed

theorem unknown_tool_not_found_witness:
  "execute_tool sample_host (tools_client sample_tools) (Some ''rube_MISSING'') None
     = (Inl (ToolNotFound ''rube_MISSING'' [''rube_SEARCH'', ''rube_RUN'']), [])
   \<and> sublist ''rube_RUN'' (error_message (ToolNotFound ''rube_MISSING'' [''rube_SEARCH'', ''rube_RUN'']))
   \<and> error_message (ToolNotFound ''rube_MISSING'' [''rube_SEARCH'', ''rube_RUN''])
     = ''MCP operation failed: Failed to execute MCP tool: Tool '' @ [CHR 0x27] @ ''rube_MISSING'' @ [CHR 0x27]
        @ '' not found. Available tools: rube_SEARCH, rube_RUN''"
proof -
  have n: "''rube_MISSING'' \<noteq> []" by simp
  have g: "getTools (tools_client sample_tools) = Inr sample_tools"
    by (simp add: tools_client_def)
  have m: "\<forall>(k, tool)\<in>set sample_tools. k \<noteq> ''rube_MISSING'' \<and> opt_prop tool ''id'' \<noteq> JStr ''rube_MISSING''"
    by (simp add: sample_tools_def)
  have ks: "executable_keys sample_tools = [''rube_SEARCH'', ''rube_RUN'']"
    by (simp add: executable_keys_def sample_tools_def lookup_tool_def)
  have l: "map_of sample_tools ''rube_RUN'' = Some (JObj [(''execute'', JFun [])])
           \<and> typeof (opt_prop (JObj [(''execute'', JFun [])]) ''execute'') = TFunction"
    by (simp add: sample_tools_def)
  from unknown_tool_not_found [OF n g m, of sample_host None] l ks
  have "execute_tool sample_host (tools_client sample_tools) (Some ''rube_MISSING'') None
     = (Inl (ToolNotFound ''rube_MISSING'' [''rube_SEARCH'', ''rube_RUN'']), [])"
    and "sublist ''rube_RUN'' (error_message (ToolNotFound ''rube_MISSING'' [''rube_SEARCH'', ''rube_RUN'']))"
    by auto
  moreover have "error_message (ToolNotFound ''rube_MISSING'' [''rube_SEARCH'', ''rube_RUN''])
     = ''MCP operation failed: Failed to execute MCP tool: Tool '' @ [CHR 0x27] @ ''rube_MISSING'' @ [CHR 0x27]
        @ '' not found. Available tools: rube_SEARCH, rube_RUN''"
    by (simp add: tool_failed_def operation_failed_def quoted_def)
  ultimately show ?thesis by simp
qed

text \<open>
  Claim C7 as stated fails at the empty \<open>tool_name\<close>: it equals no key and no id of the
  sample mapping, and the guard on \<open>tool_name\<close> makes the call fail with the
  missing-parameter error before the mapping is fetched.
\<close>

theorem empty_tool_name_counterexample:
  "find_entry sample_tools [] = None
   \<and> execute_tool sample_host (tools_client sample_tools) (Some []) None
     = (Inl (MissingParameter ''Tool name is required for execute_tool action''), [])"
  by (simp add: execute_tool_def resolve_tool_def find_entry_def matches_def sample_tools_def)

lemma filter_Boolean_member:
  "d \<in> set (filter_Boolean (map f xs)) \<Longrightarrow> \<exists>x\<in>set xs. f x = Some d"
proof (induction xs)
  case Nil
  then show ?case by simp
next
  case (Cons a xs)
  then show ?case by (cases "f a") auto
qed

lemma described_tool_matches:
  assumes "describe_tool (k, tool) = Some d" "tool_id d = JStr s"
  shows "matches s (k, tool)"
proof -
  from assms(1) have "tool_id d = js_or (opt_prop tool ''id'') (JStr k)"
    by (auto simp: describe_tool_def split: if_splits)
  with assms(2) have "js_or (opt_prop tool ''id'') (JStr k) = JStr s" by simp
  then have "opt_prop tool ''id'' = JStr s \<or> k = s"
    by (simp add: js_or_def split: if_splits)
  then show ?thesis by (auto simp: matches_def)
qed

lemma resolve_tool_not_found_iff:
  "resolve_tool c tool_name = Inl (ToolNotFound n keys) \<longleftrightarrow>
     (\<exists>toolMap. tool_name = Some n \<and> n \<noteq> [] \<and> getTools c = Inr toolMap \<and>
        find_entry toolMap n = None \<and> keys = executable_keys toolMap)"
  by (cases tool_name) (auto simp: resolve_tool_def split: sum.splits option.splits if_splits)

lemma execute_tool_not_found_iff:
  "fst (execute_tool h c tool_name tool_arguments) = Inl (ToolNotFound n keys) \<longleftrightarrow>
     resolve_tool c tool_name = Inl (ToolNotFound n keys)"
proof (cases "resolve_tool c tool_name")
  case (Inl e)
  then show ?thesis by (simp add: execute_tool_def)
next
  case (Inr r)
  obtain k t where r: "r = (k, t)" by (cases r)
  show ?thesis
  proof (cases "parse_arguments h tool_arguments")
    case (Inl e)
    then have "e = InvalidArguments (the tool_arguments)"
      by (auto simp: parse_arguments_def split: if_splits option.splits)
    with Inl Inr r show ?thesis by (simp add: execute_tool_def)
  next
    case (Inr p)
    with \<open>resolve_tool c tool_name = Inr r\<close> r show ?thesis
      by (cases "toolExecute c k p") (simp_all add: execute_tool_def Let_def)
  qed
qed

text \<open>
  Claim C9. For every flat tool mapping, execute_tool with \<open>tool_name\<close> equal to the id of
  a descriptor returned by list_tools on the same mapping, and with empty arguments, never
  fails with the not-found error. (A request carries \<open>tool_name\<close> as a string, so the
  descriptor's id is a string.)
\<close>

theorem listed_tool_is_found:
  assumes "getTools c = Inr toolMap"
    and "list_tools c = Inr env"
    and "data env = ToolList ds"
    and "d \<in> set ds"
    and "tool_id d = JStr s"
    and "tool_arguments = None \<or> tool_arguments = Some []"
  shows "fst (execute_tool h c (Some s) tool_arguments) \<noteq> Inl (ToolNotFound n keys)"
proof
  assume "fst (execute_tool h c (Some s) tool_arguments) = Inl (ToolNotFound n keys)"
  then have "resolve_tool c (Some s) = Inl (ToolNotFound n keys)"
    by (simp only: execute_tool_not_found_iff)
  with assms(1) have none: "find_entry toolMap s = None"
    by (auto simp: resolve_tool_not_found_iff)
  from assms(1,2,3) have "ds = filter_Boolean (map describe_tool toolMap)"
    by (auto simp: list_tools_def Let_def)
  with assms(4) have "\<exists>e\<in>set toolMap. describe_tool e = Some d"
    by (simp add: filter_Boolean_member)
  then obtain e where e: "e \<in> set toolMap" "describe_tool e = Some d" by (elim bexE)
  obtain k tool where kt: "e = (k, tool)" by (cases e)
  with e(2) assms(5) have "matches s e" by (simp add: described_tool_matches)
  with e(1) have "\<not> \<not> (\<exists>x. x \<in> set toolMap \<and> matches s x)" by blast
  then have "find_entry toolMap s \<noteq> None"
    unfolding find_entry_def find_None_iff .
  with none show False by simp
qed

theorem listed_tool_is_found_witness:
  "(\<exists>d. list_tools (tools_client shadowed_tools)
          = Inr \<lparr> action = ''list_tools'',
                  data = ToolList [d, \<lparr> fullKey = ''rube_B'', tool_id = JStr ''B'', server = ''rube'',
                                        tool_description = JStr ''No description available'',
                                        inputSchema = JUndefined, outputSchema = JUndefined \<rparr>],
                  message = ''Found 2 available MCP tools'' \<rparr>)
   \<and> fst (execute_tool sample_host (tools_client shadowed_tools) (Some ''B'') None)
       \<noteq> Inl (ToolNotFound ''B'' [''rube_A'', ''rube_B''])
   \<and> fst (execute_tool sample_host (tools_client shadowed_tools) (Some ''B'') None)
       = Inr \<lparr> action = ''execute_tool'', data = ToolResult (JStr ''B'') ''rube_B'' (JStr ''done''),
               message = ''Successfully executed tool '' @ [CHR 0x27] @ ''B'' @ [CHR 0x27] \<rparr>"
proof -
  let ?second = "\<lparr> fullKey = ''rube_B'', tool_id = JStr ''B'', server = ''rube'',
              tool_description = JStr ''No description available'',
              inputSchema = JUndefined, outputSchema = JUndefined \<rparr>"
  let ?first = "\<lparr> fullKey = ''rube_A'', tool_id = JStr ''rube_B'', server = ''rube'',
              tool_description = JStr ''No description available'',
              inputSchema = JUndefined, outputSchema = JUndefined \<rparr>"
  let ?env = "\<lparr> action = ''list_tools'', data = ToolList [?first, ?second],
               message = ''Found 2 available MCP tools'' \<rparr>"
  have g: "getTools (tools_client shadowed_tools) = Inr shadowed_tools"
    by (simp add: tools_client_def)
  have sn: "show_nat 2 = ''2''" by (simp add: digit_chars_def)
  have l: "list_tools (tools_client shadowed_tools) = Inr ?env"
    by (simp add: list_tools_def tools_client_def shadowed_tools_def describe_tool_def js_or_def
        split_server_def Let_def digit_chars_def)
  have dt: "data ?env = ToolList [?first, ?second]" by simp
  have dm: "?second \<in> set [?first, ?second]" by simp
  have di: "tool_id ?second = JStr ''B''" by simp
  have ar: "(None :: string option) = None \<or> (None :: string option) = Some []" by simp
  have nf: "fst (execute_tool sample_host (tools_client shadowed_tools) (Some ''B'') None)
       \<noteq> Inl (ToolNotFound ''B'' [''rube_A'', ''rube_B''])"
    by (rule listed_tool_is_found [OF g l dt dm di ar])
  have ex: "fst (execute_tool sample_host (tools_client shadowed_tools) (Some ''B'') None)
       = Inr \<lparr> action = ''execute_tool'', data = ToolResult (JStr ''B'') ''rube_B'' (JStr ''done''),
               message = ''Successfully executed tool '' @ [CHR 0x27] @ ''B'' @ [CHR 0x27] \<rparr>"
    by (simp add: execute_tool_def resolve_tool_def parse_arguments_def tools_client_def
        shadowed_tools_def find_entry_def matches_def js_or_def quoted_def Let_def)
  from l nf ex show ?thesis by blast
qed

text \<open>
  Claim C6. For every execute_tool request whose \<open>tool_name\<close> resolves to an executable
  tool: if \<open>tool_arguments\<close> is a non-empty text that \<^verbatim>\<open>JSON.parse\<close> rejects, the call
  fails with the invalid-arguments error, whose message contains the text, and no execute
  operation is invoked; if \<open>tool_arguments\<close> is absent or empty, the arguments are the
  empty object, and it is the context the resolved tool is invoked with.
\<close>

theorem invalid_arguments_before_execute:
  assumes "resolve_tool c tool_name = Inr (k, foundTool)"
  shows "(tool_arguments = Some a \<and> a \<noteq> [] \<and> jsonParse h a = None \<longrightarrow>
            execute_tool h c tool_name tool_arguments = (Inl (InvalidArguments a), [])
            \<and> sublist a (error_message (InvalidArguments a)))
         \<and> (tool_arguments = None \<or> tool_arguments = Some [] \<longrightarrow>
            parse_arguments h tool_arguments = Inr (JObj [])
            \<and> snd (execute_tool h c tool_name tool_arguments) = [(k, JObj [])])"
proof (intro conjI impI)
  assume h: "tool_arguments = Some a \<and> a \<noteq> [] \<and> jsonParse h a = None"
  with assms show "execute_tool h c tool_name tool_arguments = (Inl (InvalidArguments a), [])"
    by (simp add: execute_tool_def parse_arguments_def)
  have "error_message (InvalidArguments a)
        = ''MCP operation failed: Failed to execute MCP tool: Invalid JSON format for tool_arguments: '' @ a"
    by (simp add: tool_failed_def operation_failed_def)
  then show "sublist a (error_message (InvalidArguments a))"
    by (simp only: sublist_append_leftI)
next
  assume h: "tool_arguments = None \<or> tool_arguments = Some []"
  then show p: "parse_arguments h tool_arguments = Inr (JObj [])"
    by (auto simp: parse_arguments_def)
  with assms show "snd (execute_tool h c tool_name tool_arguments) = [(k, JObj [])]"
    by (simp add: execute_tool_def Let_def split: sum.splits)
qed

theorem invalid_arguments_before_execute_witness:
  "resolve_tool (tools_client sample_tools) (Some ''RUBE_SEARCH'')
     = Inr (''rube_SEARCH'', JObj [(''id'', JStr ''RUBE_SEARCH''), (''execute'', JFun [])])
   \<and> execute_tool sample_host (tools_client sample_tools) (Some ''RUBE_SEARCH'') (Some ''not json'')
     = (Inl (InvalidArguments ''not json''), [])
   \<and> sublist ''not json'' (error_message (InvalidArguments ''not json''))
   \<and> snd (execute_tool sample_host (tools_client sample_tools) (Some ''RUBE_SEARCH'') None)
     = [(''rube_SEARCH'', JObj [])]
   \<and> snd (execute_tool sample_host (tools_client sample_tools) (Some ''RUBE_SEARCH'') (Some []))
     = [(''rube_SEARCH'', JObj [])]"
proof -
  have r: "resolve_tool (tools_client sample_tools) (Some ''RUBE_SEARCH'')
     = Inr (''rube_SEARCH'', JObj [(''id'', JStr ''RUBE_SEARCH''), (''execute'', JFun [])])"
    by (simp add: resolve_tool_def tools_client_def sample_tools_def find_entry_def matches_def)
  have p: "jsonParse sample_host ''not json'' = None" by (simp add: sample_host_def)
  from invalid_arguments_before_execute [OF r, of "Some ''not json''" "''not json''" sample_host] p
  have a: "execute_tool sample_host (tools_client sample_tools) (Some ''RUBE_SEARCH'') (Some ''not json'')
     = (Inl (InvalidArguments ''not json''), [])"
    and b: "sublist ''not json'' (error_message (InvalidArguments ''not json''))"
    by simp_all
  from invalid_arguments_before_execute [OF r, of None _ sample_host]
  have c: "snd (execute_tool sample_host (tools_client sample_tools) (Some ''RUBE_SEARCH'') None)
     = [(''rube_SEARCH'', JObj [])]"
    by simp
  from invalid_arguments_before_execute [OF r, of "Some []" _ sample_host]
  have d: "snd (execute_tool sample_host (tools_client sample_tools) (Some ''RUBE_SEARCH'') (Some []))
     = [(''rube_SEARCH'', JObj [])]"
    by simp
  from r a b c d show ?thesis by simp
qed

section \<open>Properties of get_resource\<close>

lemma find_resource_None_iff:
  "find_resource resources resource_uri = None \<longleftrightarrow>
     (\<forall>(s, rs)\<in>set resources. \<forall>r\<in>set rs. uri r \<noteq> resource_uri)"
proof (induction resources resource_uri rule: find_resource.induct)
  case (1 resource_uri)
  show ?case by simp
next
  case (2 serverName serverResources rest resource_uri)
  show ?case
  proof (cases "find (\<lambda>r. uri r = resource_uri) serverResources")
    case None
    then have "\<forall>r\<in>set serverResources. uri r \<noteq> resource_uri"
      by (auto simp: find_None_iff)
    with 2 None show ?thesis by simp
  next
    case (Some found)
    then have "\<exists>r\<in>set serverResources. uri r = resource_uri"
      by (auto simp: find_Some_iff)
    with Some show ?thesis by auto
  qed
qed

lemma find_resource_Some_iff:
  "find_resource resources resource_uri = Some (serverName, found) \<longleftrightarrow>
     (\<exists>pre rs post. resources = pre @ (serverName, rs) # post \<and>
        (\<forall>(s, rs')\<in>set pre. \<forall>r\<in>set rs'. uri r \<noteq> resource_uri) \<and>
        find (\<lambda>r. uri r = resource_uri) rs = Some found)"
proof (induction resources resource_uri rule: find_resource.induct)
  case (1 resource_uri)
  show ?case by simp
next
  case (2 s0 rs0 rest resource_uri)
  let ?R = "\<lambda>xs. \<exists>pre rs post. xs = pre @ (serverName, rs) # post \<and>
        (\<forall>(s, rs')\<in>set pre. \<forall>r\<in>set rs'. uri r \<noteq> resource_uri) \<and>
        find (\<lambda>r. uri r = resource_uri) rs = Some found"
  show ?case
  proof (cases "find (\<lambda>r. uri r = resource_uri) rs0")
    case None
    then have none0: "\<forall>r\<in>set rs0. uri r \<noteq> resource_uri" by (auto simp: find_None_iff)
    have "?R ((s0, rs0) # rest) \<longleftrightarrow> ?R rest"
    proof
      assume "?R ((s0, rs0) # rest)"
      then obtain pre rs post where h: "(s0, rs0) # rest = pre @ (serverName, rs) # post"
        "\<forall>(s, rs')\<in>set pre. \<forall>r\<in>set rs'. uri r \<noteq> resource_uri"
        "find (\<lambda>r. uri r = resource_uri) rs = Some found" by blast
      show "?R rest"
      proof (cases pre)
        case Nil
        with h None show ?thesis by simp
      next
        case (Cons p ps)
        with h have "rest = ps @ (serverName, rs) # post \<and>
          (\<forall>(s, rs')\<in>set ps. \<forall>r\<in>set rs'. uri r \<noteq> resource_uri) \<and>
          find (\<lambda>r. uri r = resource_uri) rs = Some found" by simp
        then show ?thesis by blast
      qed
    next
      assume "?R rest"
      then obtain pre rs post where h: "rest = pre @ (serverName, rs) # post"
        "\<forall>(s, rs')\<in>set pre. \<forall>r\<in>set rs'. uri r \<noteq> resource_uri"
        "find (\<lambda>r. uri r = resource_uri) rs = Some found" by blast
      with none0 have "(s0, rs0) # rest = ((s0, rs0) # pre) @ (serverName, rs) # post \<and>
          (\<forall>(s, rs')\<in>set ((s0, rs0) # pre). \<forall>r\<in>set rs'. uri r \<noteq> resource_uri) \<and>
          find (\<lambda>r. uri r = resource_uri) rs = Some found" by simp
      then show "?R ((s0, rs0) # rest)" by blast
    qed
    with 2 None show ?thesis by simp
  next
    case (Some f0)
    then have some0: "\<exists>r\<in>set rs0. uri r = resource_uri" by (auto simp: find_Some_iff)
    have "?R ((s0, rs0) # rest) \<longleftrightarrow> (s0 = serverName \<and> f0 = found)"
    proof
      assume "?R ((s0, rs0) # rest)"
      then obtain pre rs post where h: "(s0, rs0) # rest = pre @ (serverName, rs) # post"
        "\<forall>(s, rs')\<in>set pre. \<forall>r\<in>set rs'. uri r \<noteq> resource_uri"
        "find (\<lambda>r. uri r = resource_uri) rs = Some found" by blast
      show "s0 = serverName \<and> f0 = found"
      proof (cases pre)
        case Nil
        with h Some show ?thesis by simp
      next
        case (Cons p ps)
        with h have "p = (s0, rs0)" and "\<forall>r\<in>set rs0. uri r \<noteq> resource_uri" by auto
        with some0 show ?thesis by blast
      qed
    next
      assume "s0 = serverName \<and> f0 = found"
      with Some have "(s0, rs0) # rest = [] @ (serverName, rs0) # rest \<and>
          (\<forall>(s, rs')\<in>set []. \<forall>r\<in>set rs'. uri r \<noteq> resource_uri) \<and>
          find (\<lambda>r. uri r = resource_uri) rs0 = Some found" by simp
      then show "?R ((s0, rs0) # rest)"
        by (intro exI [of _ "[]"] exI [of _ rs0] exI [of _ rest])
    qed
    with Some show ?thesis by simp
  qed
qed

lemma get_resource_found:
  assumes "resource_uri \<noteq> []"
    and "getResources c = Inr resources"
    and "find_resource resources resource_uri = Some (serverName, found)"
    and "serverName \<noteq> []"
  shows "get_resource h c (Some resource_uri) max_bytes =
           (case resourcesRead c serverName resource_uri of
              Inl err \<Rightarrow> Inl (ResourceReadFailed err)
            | Inr result \<Rightarrow> Inr (resource_envelope h resource_uri serverName found max_bytes result))"
  using assms by (simp add: get_resource_def split: sum.splits)

lemma sample_found: "find_resource sample_resources ''doc://b'' = Some (''beta'', beta_info)"
  by (simp add: sample_resources_def beta_info_def)

lemma sample_read:
  "resourcesRead (resource_client sample_resources result) ''beta'' ''doc://b'' = Inr result"
  by (simp add: resource_client_def)

lemma sample_fetch: "getResources (resource_client resources result) = Inr resources"
  by (simp add: resource_client_def)

text \<open>
  Claim C5, as amended. For every per-server resource mapping and every non-empty
  \<open>resource_uri\<close>, get_resource scans the servers in the order of the fetched mapping and
  takes the first server one of whose resources has the URI, with the first such resource
  of that server; when the name of that server is non-empty the resource is read from it,
  whatever the earlier servers hold; and if no server contains the URI the call fails with
  the resource-not-found error.
\<close>

theorem get_resource_first_server:
  assumes "resource_uri \<noteq> []"
    and "getResources c = Inr resources"
  shows "(find_resource resources resource_uri = Some (serverName, found) \<longleftrightarrow>
            (\<exists>pre rs post. resources = pre @ (serverName, rs) # post \<and>
               (\<forall>(s, rs')\<in>set pre. \<forall>r\<in>set rs'. uri r \<noteq> resource_uri) \<and>
               find (\<lambda>r. uri r = resource_uri) rs = Some found))
         \<and> (find_resource resources resource_uri = Some (serverName, found) \<and> serverName \<noteq> [] \<longrightarrow>
              get_resource h c (Some resource_uri) max_bytes =
                (case resourcesRead c serverName resource_uri of
                   Inl err \<Rightarrow> Inl (ResourceReadFailed err)
                 | Inr result \<Rightarrow> Inr (resource_envelope h resource_uri serverName found max_bytes result)))
         \<and> ((\<forall>(s, rs)\<in>set resources. \<forall>r\<in>set rs. uri r \<noteq> resource_uri) \<longrightarrow>
              get_resource h c (Some resource_uri) max_bytes = Inl (ResourceNotFound resource_uri))"
proof (intro conjI impI)
  show "find_resource resources resource_uri = Some (serverName, found) \<longleftrightarrow>
            (\<exists>pre rs post. resources = pre @ (serverName, rs) # post \<and>
               (\<forall>(s, rs')\<in>set pre. \<forall>r\<in>set rs'. uri r \<noteq> resource_uri) \<and>
               find (\<lambda>r. uri r = resource_uri) rs = Some found)"
    by (rule find_resource_Some_iff)
next
  assume "find_resource resources resource_uri = Some (serverName, found) \<and> serverName \<noteq> []"
  with assms show "get_resource h c (Some resource_uri) max_bytes =
                (case resourcesRead c serverName resource_uri of
                   Inl err \<Rightarrow> Inl (ResourceReadFailed err)
                 | Inr result \<Rightarrow> Inr (resource_envelope h resource_uri serverName found max_bytes result))"
    by (simp add: get_resource_found)
next
  assume "\<forall>(s, rs)\<in>set resources. \<forall>r\<in>set rs. uri r \<noteq> resource_uri"
  then have "find_resource resources resource_uri = None"
    by (simp only: find_resource_None_iff)
  with assms show "get_resource h c (Some resource_uri) max_bytes = Inl (ResourceNotFound resource_uri)"
    by (simp add: get_resource_def)
qed

theorem get_resource_first_server_witness:
  "find_resource sample_resources ''doc://b''
     = Some (''beta'', \<lparr> uri = ''doc://b'', name = ''B'', description = Some ''notes'',
                         mimeType = Some ''text/plain'' \<rparr>)
   \<and> get_resource sample_host (resource_client sample_resources (ResultString ''hello'')) (Some ''doc://b'') None
     = Inr (resource_envelope sample_host ''doc://b'' ''beta''
              \<lparr> uri = ''doc://b'', name = ''B'', description = Some ''notes'', mimeType = Some ''text/plain'' \<rparr>
              None (ResultString ''hello''))
   \<and> get_resource sample_host (resource_client sample_resources (ResultString ''hello'')) (Some ''doc://c'') None
     = Inl (ResourceNotFound ''doc://c'')"
proof -
  let ?c = "resource_client sample_resources (ResultString ''hello'')"
  let ?info = "\<lparr> uri = ''doc://b'', name = ''B'', description = Some ''notes'', mimeType = Some ''text/plain'' \<rparr>"
  have u: "''doc://b'' \<noteq> []" and u': "''doc://c'' \<noteq> []" by simp_all
  have g: "getResources ?c = Inr sample_resources" by (simp add: resource_client_def)
  have f: "find_resource sample_resources ''doc://b'' = Some (''beta'', ?info)"
    by (simp add: sample_resources_def)
  have r: "resourcesRead ?c ''beta'' ''doc://b'' = Inr (ResultString ''hello'')"
    by (simp add: resource_client_def)
  have a: "\<forall>(s, rs)\<in>set sample_resources. \<forall>r\<in>set rs. uri r \<noteq> ''doc://c''"
    by (simp add: sample_resources_def)
  from get_resource_first_server [OF u g, of "''beta''" ?info sample_host None] f r
  have 1: "get_resource sample_host ?c (Some ''doc://b'') None
     = Inr (resource_envelope sample_host ''doc://b'' ''beta'' ?info None (ResultString ''hello''))"
    by simp
  from get_resource_first_server [OF u' g, of "''beta''" ?info sample_host None] a
  have 2: "get_resource sample_host ?c (Some ''doc://c'') None = Inl (ResourceNotFound ''doc://c'')"
    by simp
  from f 1 2 show ?thesis by simp
qed

text \<open>
  Claim C5 as stated fails at the empty \<open>resource_uri\<close>: no server of the sample mapping
  contains it, and the guard on \<open>resource_uri\<close> makes the call fail with the
  missing-parameter error, not with the resource-not-found error.
\<close>

theorem empty_resource_uri_counterexample:
  "find_resource sample_resources [] = None
   \<and> get_resource sample_host (resource_client sample_resources (ResultString ''hello'')) (Some []) None
     = Inl (MissingParameter ''Resource URI is required for get_resource action'')"
  by (simp add: get_resource_def sample_resources_def)

lemma resource_envelope_data:
  "data (resource_envelope h resource_uri targetServer resourceInfo max_bytes result) =
     (let extracted = fst (extract_content h result);
          binary = snd (extract_content h result);
          cut = (\<not> binary \<and> rat_of_nat (length extracted) > max_size max_bytes);
          final = (if cut then substring0 extracted (max_size max_bytes) else extracted)
      in ResourceData
             \<lparr> data_uri = resource_uri,
               data_server = targetServer,
               data_name = name resourceInfo,
               data_description = description resourceInfo,
               data_mimeType = mimeType resourceInfo,
               content = final,
               isBinary = binary,
               truncated = cut,
               content_size = length final \<rparr>)"
  by (simp add: resource_envelope_def Let_def split: prod.splits)

lemma substring0_nat: "substring0 s (rat_of_nat n) = take n s"
  by (simp add: substring0_def)

text \<open>
  Claim C3, as amended. For every get_resource request whose resolved content is a textual
  result longer than the cap, where the cap is \<open>max_bytes\<close> when it is supplied as a
  positive whole number and 100000 when it is absent or zero, the returned content is the
  prefix of the text of length equal to the cap, \<open>truncated\<close> is true and the size equals
  the cap. The instance: \<open>max_bytes = 10\<close> on a text of 100 characters gives a content of
  length 10, \<open>truncated = true\<close>, \<open>size = 10\<close>.
\<close>

theorem truncation_to_cap:
  assumes "resource_uri \<noteq> []"
    and "getResources c = Inr resources"
    and "find_resource resources resource_uri = Some (serverName, found)"
    and "serverName \<noteq> []"
    and "resourcesRead c serverName resource_uri = Inr result"
    and "extract_content h result = (txt, False)"
    and "(max_bytes = None \<or> max_bytes = Some 0) \<and> cap = 100000
         \<or> max_bytes = Some (rat_of_nat cap) \<and> 0 < cap"
    and "cap < length txt"
  shows "\<exists>env d. get_resource h c (Some resource_uri) max_bytes = Inr env \<and> data env = ResourceData d
           \<and> content d = take cap txt \<and> length (content d) = cap
           \<and> truncated d \<and> content_size d = cap \<and> \<not> isBinary d"
proof -
  let ?env = "resource_envelope h resource_uri serverName found max_bytes result"
  from assms(1-5) have g: "get_resource h c (Some resource_uri) max_bytes = Inr ?env"
    by (simp add: get_resource_found)
  from assms(7) have m: "max_size max_bytes = rat_of_nat cap"
    by (auto simp: max_size_def)
  from assms(8) have len: "length (take cap txt) = cap" by simp
  let ?d = "\<lparr> data_uri = resource_uri, data_server = serverName, data_name = name found,
              data_description = description found, data_mimeType = mimeType found,
              content = take cap txt, isBinary = False, truncated = True, content_size = cap \<rparr>"
  have "data ?env = ResourceData ?d"
    by (simp add: resource_envelope_data assms(6) assms(8) m substring0_nat Let_def)
  with g len show ?thesis by auto
qed

theorem truncation_to_cap_witness:
  "length hundred_chars = 100 \<and>
   (\<exists>env d. get_resource sample_host (resource_client sample_resources (text_result hundred_chars))
                (Some ''doc://b'') (Some 10) = Inr env
      \<and> data env = ResourceData d \<and> content d = ''0123456789'' \<and> length (content d) = 10
      \<and> truncated d \<and> content_size d = 10 \<and> \<not> isBinary d)"
proof -
  have u: "''doc://b'' \<noteq> []" and s: "''beta'' \<noteq> []" by simp_all
  have e: "extract_content sample_host (text_result hundred_chars) = (hundred_chars, False)"
    by (simp add: text_result_def)
  have n: "length hundred_chars = 100" by (simp add: hundred_chars_def)
  have m: "(Some (10::rat) = None \<or> Some (10::rat) = Some 0) \<and> (10::nat) = 100000
           \<or> Some (10::rat) = Some (rat_of_nat 10) \<and> (0::nat) < 10"
    by simp
  have l: "10 < length hundred_chars" by (simp add: n)
  have t: "take 10 hundred_chars = ''0123456789''" by (simp add: hundred_chars_def)
  from truncation_to_cap [OF u sample_fetch sample_found s sample_read e m l] t n
  show ?thesis by simp
qed

text \<open>
  Claim C3 as stated fails at \<open>max_bytes = 0\<close>: the text \<^verbatim>\<open>hello\<close> is longer than the
  supplied cap, and it is returned whole with \<open>truncated = false\<close> and size 5, because
  the cap applied is the default.
\<close>

theorem zero_max_bytes_counterexample:
  "get_resource sample_host (resource_client sample_resources (text_result ''hello''))
     (Some ''doc://b'') (Some 0)
   = Inr \<lparr> action = ''get_resource'',
           data = ResourceData
             \<lparr> data_uri = ''doc://b'', data_server = ''beta'', data_name = ''B'',
               data_description = Some ''notes'', data_mimeType = Some ''text/plain'',
               content = ''hello'', isBinary = False, truncated = False, content_size = 5 \<rparr>,
           message = ''Successfully retrieved resource '' @ [CHR 0x27] @ ''B'' @ [CHR 0x27]
                     @ '' from server '' @ [CHR 0x27] @ ''beta'' @ [CHR 0x27] \<rparr>"
  by (simp add: get_resource_def resource_client_def sample_resources_def text_result_def
      resource_envelope_def max_size_def quoted_def)

text \<open>
  Claim C10. For every get_resource request with \<open>max_bytes\<close> supplied as 0, the cap
  applied is the default 100000 and not 0, and the call gives what it gives with
  \<open>max_bytes\<close> absent: a textual content of length up to 100000 is returned whole, with
  \<open>truncated = false\<close> and its own length as size, and a longer one is cut to its first
  100000 characters, with \<open>truncated = true\<close> and size 100000.
\<close>

theorem zero_max_bytes_uses_default:
  assumes "resource_uri \<noteq> []"
    and "getResources c = Inr resources"
    and "find_resource resources resource_uri = Some (serverName, found)"
    and "serverName \<noteq> []"
    and "resourcesRead c serverName resource_uri = Inr result"
    and "extract_content h result = (txt, False)"
  shows "get_resource h c (Some resource_uri) (Some 0) = get_resource h c (Some resource_uri) None
         \<and> (\<exists>env d. get_resource h c (Some resource_uri) (Some 0) = Inr env \<and> data env = ResourceData d
               \<and> \<not> isBinary d
               \<and> (length txt \<le> 100000 \<longrightarrow>
                     content d = txt \<and> \<not> truncated d \<and> content_size d = length txt)
               \<and> (100000 < length txt \<longrightarrow>
                     content d = take 100000 txt \<and> truncated d \<and> content_size d = 100000))"
proof -
  let ?env = "resource_envelope h resource_uri serverName found (Some 0) result"
  have m: "max_size (Some 0) = 100000" by (simp add: max_size_def)
  have same: "resource_envelope h resource_uri serverName found (Some 0) result
              = resource_envelope h resource_uri serverName found None result"
    by (simp add: resource_envelope_def max_size_def)
  from assms(1-5) have g: "get_resource h c (Some resource_uri) (Some 0) = Inr ?env"
    by (simp add: get_resource_found)
  from assms(1-5) have g': "get_resource h c (Some resource_uri) None
      = Inr (resource_envelope h resource_uri serverName found None result)"
    by (simp add: get_resource_found)
  from g g' same have eq: "get_resource h c (Some resource_uri) (Some 0)
      = get_resource h c (Some resource_uri) None" by simp
  have cut: "(rat_of_nat (length txt) > 100000) = (100000 < length txt)"
    by simp
  have pre: "substring0 txt 100000 = take 100000 txt"
    by (simp add: substring0_def)
  let ?cut = "100000 < length txt"
  let ?final = "if ?cut then take 100000 txt else txt"
  let ?d = "\<lparr> data_uri = resource_uri, data_server = serverName, data_name = name found,
              data_description = description found, data_mimeType = mimeType found,
              content = ?final, isBinary = False, truncated = ?cut,
              content_size = length ?final \<rparr>"
  have d: "data ?env = ResourceData ?d"
    by (simp add: resource_envelope_data assms(6) m cut pre Let_def)
  have short: "length txt \<le> 100000 \<longrightarrow>
      content ?d = txt \<and> \<not> truncated ?d \<and> content_size ?d = length txt" by simp
  have long: "100000 < length txt \<longrightarrow>
      content ?d = take 100000 txt \<and> truncated ?d \<and> content_size ?d = 100000" by simp
  have nb: "\<not> isBinary ?d" by simp
  from g d nb short long
  have "\<exists>env d. get_resource h c (Some resource_uri) (Some 0) = Inr env \<and> data env = ResourceData d
               \<and> \<not> isBinary d
               \<and> (length txt \<le> 100000 \<longrightarrow>
                     content d = txt \<and> \<not> truncated d \<and> content_size d = length txt)
               \<and> (100000 < length txt \<longrightarrow>
                     content d = take 100000 txt \<and> truncated d \<and> content_size d = 100000)"
    by (intro exI [of _ ?env] exI [of _ ?d] conjI)
  with eq show ?thesis by (intro conjI)
qed

theorem zero_max_bytes_uses_default_witness:
  "(\<exists>env d. get_resource sample_host (resource_client sample_resources (ResultString hundred_chars))
                 (Some ''doc://b'') (Some 0) = Inr env
        \<and> data env = ResourceData d \<and> content d = hundred_chars \<and> \<not> truncated d
        \<and> content_size d = 100)
   \<and> (\<exists>env d. get_resource sample_host
                 (resource_client sample_resources (ResultString (replicate 100001 CHR ''a'')))
                 (Some ''doc://b'') (Some 0) = Inr env
        \<and> data env = ResourceData d \<and> content d = replicate 100000 CHR ''a'' \<and> truncated d
        \<and> content_size d = 100000)"
proof -
  have u: "''doc://b'' \<noteq> []" and s: "''beta'' \<noteq> []" by simp_all
  have e: "extract_content sample_host (ResultString hundred_chars) = (hundred_chars, False)"
    by simp
  have n: "length hundred_chars = 100" by (simp add: hundred_chars_def)
  from zero_max_bytes_uses_default [OF u sample_fetch sample_found s sample_read e, THEN conjunct2] n
  have 1: "\<exists>env d. get_resource sample_host (resource_client sample_resources (ResultString hundred_chars))
                 (Some ''doc://b'') (Some 0) = Inr env
        \<and> data env = ResourceData d \<and> content d = hundred_chars \<and> \<not> truncated d
        \<and> content_size d = 100"
    by auto
  have e': "extract_content sample_host (ResultString (replicate 100001 CHR ''a''))
            = (replicate 100001 CHR ''a'', False)"
    by simp
  from zero_max_bytes_uses_default [OF u sample_fetch sample_found s sample_read e', THEN conjunct2]
  have 2: "\<exists>env d. get_resource sample_host
                 (resource_client sample_resources (ResultString (replicate 100001 CHR ''a'')))
                 (Some ''doc://b'') (Some 0) = Inr env
        \<and> data env = ResourceData d \<and> content d = replicate 100000 CHR ''a'' \<and> truncated d
        \<and> content_size d = 100000"
    by auto
  from 1 2 show ?thesis by (intro conjI)
qed

lemma collect_parts_text:
  "\<forall>p\<in>set parts. \<not> binary_part p \<Longrightarrow> collect_parts acc parts = (acc @ texts_of parts, False)"
proof (induction parts arbitrary: acc)
  case Nil
  show ?case by (simp add: texts_of_def)
next
  case (Cons p ps)
  then have ih: "\<And>acc'. collect_parts acc' ps = (acc' @ texts_of ps, False)" by simp
  from Cons.prems have nb: "\<not> binary_part p" by simp
  show ?case
  proof (cases "text_part p")
    case True
    then show ?thesis by (simp add: ih texts_of_def text_part_def)
  next
    case False
    with nb show ?thesis by (simp add: ih texts_of_def text_part_def binary_part_def)
  qed
qed

lemma collect_parts_blob:
  "\<forall>p\<in>set pre. \<not> binary_part p \<Longrightarrow> binary_part b \<Longrightarrow>
   collect_parts acc (pre @ b # post) = (the (part_blob b), True)"
proof (induction pre arbitrary: acc)
  case Nil
  then show ?case by (simp add: binary_part_def)
next
  case (Cons p ps)
  then have ih: "\<And>acc'. collect_parts acc' (ps @ b # post) = (the (part_blob b), True)" by simp
  from Cons.prems have "\<not> binary_part p" by simp
  then show ?case by (auto simp: ih binary_part_def)
qed

lemma binary_not_truncated:
  assumes "extract_content h result = (b, True)"
  shows "data (resource_envelope h resource_uri targetServer resourceInfo max_bytes result)
         = ResourceData \<lparr> data_uri = resource_uri, data_server = targetServer,
             data_name = name resourceInfo, data_description = description resourceInfo,
             data_mimeType = mimeType resourceInfo,
             content = b, isBinary = True, truncated = False, content_size = length b \<rparr>"
  by (simp add: resource_envelope_data assms Let_def)

text \<open>
  Claim C4, as amended. When the result has an array of content parts: if no part carries
  binary content, the content is the concatenation in order of the texts of the parts with
  a truthy text; if some part does, the content is the blob of the first such part alone,
  the text accumulated before it is discarded and \<open>isBinary\<close> is true. A part carries
  binary content when it has a truthy blob and no truthy text, so a part with both a text
  and a blob is appended as text. When the result has no such array, a raw string result is
  the content; otherwise a truthy (non-empty) text field of the result is; otherwise a
  truthy data field is, as it stands if it is a string and stringified as pretty JSON if it
  is any other value but a callable; otherwise, also with an empty text field or a falsy
  data field present, the content is empty. A binary content is never truncated: it is
  returned whole, with \<open>truncated = false\<close>, whatever the cap.
\<close>

theorem content_extraction_precedence:
  "((\<forall>p\<in>set parts. \<not> binary_part p) \<longrightarrow>
      extract_content h (ResultObject (Some parts) t d) = (texts_of parts, False))
   \<and> ((\<forall>p\<in>set pre. \<not> binary_part p) \<and> binary_part b \<longrightarrow>
      extract_content h (ResultObject (Some (pre @ b # post)) t d) = (the (part_blob b), True))
   \<and> extract_content h (ResultString s) = (s, False)
   \<and> (truthy_param t \<longrightarrow> extract_content h (ResultObject None t d) = (the t, False))
   \<and> (\<not> truthy_param t \<and> truthy d \<and> typeof d \<noteq> TFunction \<longrightarrow>
      extract_content h (ResultObject None t d)
        = ((case d of JStr s' \<Rightarrow> s' | _ \<Rightarrow> jsonStringify h d), False))
   \<and> (\<not> truthy_param t \<and> \<not> truthy d \<longrightarrow> extract_content h (ResultObject None t d) = ([], False))
   \<and> (extract_content h result = (blob, True) \<longrightarrow>
      data (resource_envelope h resource_uri targetServer resourceInfo max_bytes result)
        = ResourceData \<lparr> data_uri = resource_uri, data_server = targetServer,
            data_name = name resourceInfo, data_description = description resourceInfo,
            data_mimeType = mimeType resourceInfo,
            content = blob, isBinary = True, truncated = False, content_size = length blob \<rparr>)"
proof (intro conjI impI)
  assume "\<forall>p\<in>set parts. \<not> binary_part p"
  then have "collect_parts [] parts = ([] @ texts_of parts, False)" by (rule collect_parts_text)
  then show "extract_content h (ResultObject (Some parts) t d) = (texts_of parts, False)" by simp
next
  assume "(\<forall>p\<in>set pre. \<not> binary_part p) \<and> binary_part b"
  then have "collect_parts [] (pre @ b # post) = (the (part_blob b), True)"
    by (simp add: collect_parts_blob)
  then show "extract_content h (ResultObject (Some (pre @ b # post)) t d) = (the (part_blob b), True)"
    by simp
next
  show "extract_content h (ResultString s) = (s, False)" by simp
next
  assume "truthy_param t"
  then show "extract_content h (ResultObject None t d) = (the t, False)" by simp
next
  assume "\<not> truthy_param t \<and> truthy d \<and> typeof d \<noteq> TFunction"
  then show "extract_content h (ResultObject None t d)
        = ((case d of JStr s' \<Rightarrow> s' | _ \<Rightarrow> jsonStringify h d), False)" by simp
next
  assume "\<not> truthy_param t \<and> \<not> truthy d"
  then show "extract_content h (ResultObject None t d) = ([], False)" by simp
next
  assume "extract_content h result = (blob, True)"
  then show "data (resource_envelope h resource_uri targetServer resourceInfo max_bytes result)
        = ResourceData \<lparr> data_uri = resource_uri, data_server = targetServer,
            data_name = name resourceInfo, data_description = description resourceInfo,
            data_mimeType = mimeType resourceInfo,
            content = blob, isBinary = True, truncated = False, content_size = length blob \<rparr>"
    by (rule binary_not_truncated)
qed

text \<open>
  Claim C4 as stated fails on three results. A single part that carries a blob together
  with a text gives the text with \<open>isBinary = false\<close>, not the blob. An object whose text
  field is present but empty gives its data field, not the text field. An object whose data
  field is the number 0 gives the empty content, not the stringified number.
\<close>

theorem text_and_blob_part_counterexample:
  "get_resource sample_host
     (resource_client sample_resources
        (ResultObject (Some [\<lparr> part_text = Some ''ab'', part_blob = Some ''QUJD'' \<rparr>]) None JUndefined))
     (Some ''doc://b'') None
   = Inr \<lparr> action = ''get_resource'',
           data = ResourceData
             \<lparr> data_uri = ''doc://b'', data_server = ''beta'', data_name = ''B'',
               data_description = Some ''notes'', data_mimeType = Some ''text/plain'',
               content = ''ab'', isBinary = False, truncated = False, content_size = 2 \<rparr>,
           message = ''Successfully retrieved resource '' @ [CHR 0x27] @ ''B'' @ [CHR 0x27]
                     @ '' from server '' @ [CHR 0x27] @ ''beta'' @ [CHR 0x27] \<rparr>
   \<and> extract_content sample_host (ResultObject None (Some []) (JStr ''dat'')) = (''dat'', False)
   \<and> extract_content sample_host (ResultObject None None (JNum 0)) = ([], False)"
  by (simp add: get_resource_def resource_client_def sample_resources_def
      resource_envelope_def max_size_def quoted_def)

theorem content_extraction_precedence_witness:
  "extract_content sample_host (ResultObject (Some [text_of ''ab'', text_of [], text_of ''cd'']) None JUndefined)
     = (''abcd'', False)
   \<and> extract_content sample_host (ResultObject (Some ([text_of ''ab''] @ blob_of ''QUJD'' # [text_of ''cd''])) None JUndefined)
     = (''QUJD'', True)
   \<and> extract_content sample_host (ResultString ''raw'') = (''raw'', False)
   \<and> extract_content sample_host (ResultObject None (Some ''txt'') (JStr ''dat'')) = (''txt'', False)
   \<and> extract_content sample_host (ResultObject None (Some []) (JStr ''dat'')) = (''dat'', False)
   \<and> extract_content sample_host (ResultObject None None (JObj [])) = (''{}'', False)
   \<and> extract_content sample_host (ResultObject None None JUndefined) = ([], False)
   \<and> data (resource_envelope sample_host ''doc://b'' ''beta'' beta_info (Some 10)
             (ResultObject (Some [blob_of hundred_chars]) None JUndefined))
     = ResourceData \<lparr> data_uri = ''doc://b'', data_server = ''beta'', data_name = ''B'',
         data_description = Some ''notes'', data_mimeType = Some ''text/plain'',
         content = hundred_chars, isBinary = True, truncated = False, content_size = 100 \<rparr>"
proof -
  note p = content_extraction_precedence [where h = sample_host]
  have 1: "extract_content sample_host (ResultObject (Some [text_of ''ab'', text_of [], text_of ''cd'']) None JUndefined)
     = (''abcd'', False)"
    using p [where parts = "[text_of ''ab'', text_of [], text_of ''cd'']" and t = None and d = JUndefined]
    by (simp add: text_of_def binary_part_def texts_of_def text_part_def)
  have 2: "extract_content sample_host (ResultObject (Some ([text_of ''ab''] @ blob_of ''QUJD'' # [text_of ''cd''])) None JUndefined)
     = (''QUJD'', True)"
    using p [where pre = "[text_of ''ab'']" and b = "blob_of ''QUJD''" and post = "[text_of ''cd'']"
        and t = None and d = JUndefined]
    by (simp add: text_of_def blob_of_def binary_part_def)
  have 3: "extract_content sample_host (ResultString ''raw'') = (''raw'', False)"
    using p [where s = "''raw''"] by simp
  have 4: "extract_content sample_host (ResultObject None (Some ''txt'') (JStr ''dat'')) = (''txt'', False)"
    using p [where t = "Some ''txt''" and d = "JStr ''dat''"] by simp
  have 5: "extract_content sample_host (ResultObject None (Some []) (JStr ''dat'')) = (''dat'', False)"
    using p [where t = "Some []" and d = "JStr ''dat''"] by simp
  have 6: "extract_content sample_host (ResultObject None None (JObj [])) = (''{}'', False)"
    using p [where t = None and d = "JObj []"] by (simp add: sample_host_def)
  have 7: "extract_content sample_host (ResultObject None None JUndefined) = ([], False)"
    using p [where t = None and d = JUndefined] by simp
  have e: "extract_content sample_host (ResultObject (Some [blob_of hundred_chars]) None JUndefined)
           = (hundred_chars, True)"
    by (simp add: blob_of_def hundred_chars_def)
  have n: "length hundred_chars = 100" by (simp add: hundred_chars_def)
  have 8: "data (resource_envelope sample_host ''doc://b'' ''beta'' beta_info (Some 10)
             (ResultObject (Some [blob_of hundred_chars]) None JUndefined))
     = ResourceData \<lparr> data_uri = ''doc://b'', data_server = ''beta'', data_name = ''B'',
         data_description = Some ''notes'', data_mimeType = Some ''text/plain'',
         content = hundred_chars, isBinary = True, truncated = False, content_size = 100 \<rparr>"
    using p [where result = "ResultObject (Some [blob_of hundred_chars]) None JUndefined"
        and blob = hundred_chars and resource_uri = "''doc://b''" and targetServer = "''beta''"
        and resourceInfo = beta_info and max_bytes = "Some 10"] e n
    by (simp add: beta_info_def)
  from 1 2 3 4 5 6 7 8 show ?thesis by simp
qed

section \<open>Properties of list_prompts\<close>

text \<open>
  Claim C8. list_prompts never fails with an error, and for every client state in which the
  prompts capability is absent (the prompts property is falsy, or its list is not callable)
  it returns the success envelope whose data is the empty list, with the message that
  prompts are not supported.
\<close>

theorem list_prompts_without_capability:
  "list_prompts c \<noteq> Inl e
   \<and> (\<not> truthy (prompts c) \<or> typeof (opt_prop (prompts c) ''list'') \<noteq> TFunction \<longrightarrow>
        list_prompts c = Inr \<lparr> action = ''list_prompts'', data = PromptList [],
          message = ''Prompts are not supported by the current MCP server configuration.'' \<rparr>)"
  by (auto simp: list_prompts_def no_prompts_def split: sum.splits option.splits)

theorem list_prompts_without_capability_witness:
  "list_prompts (tools_client sample_tools)
     = Inr \<lparr> action = ''list_prompts'', data = PromptList [],
             message = ''Prompts are not supported by the current MCP server configuration.'' \<rparr>
   \<and> list_prompts (resource_client sample_resources (ResultString ''hello''))
     = Inr \<lparr> action = ''list_prompts'', data = PromptList [],
             message = ''Prompts are not supported by the current MCP server configuration.'' \<rparr>"
  using list_prompts_without_capability [of "tools_client sample_tools"]
    list_prompts_without_capability [of "resource_client sample_resources (ResultString ''hello'')"]
  by (simp add: tools_client_def resource_client_def)

end
